theory Spec2Isabelle
  imports Main "HOL-Library.Word"
begin

text \<open>
  A shallow embedding of package objconv's value.go (the \<^verbatim>\<open>Type\<close> enumeration, the
  emptiness and zero predicates, the zero-value cache, the conversion of bytes to a
  string without a copy) and of the \<^verbatim>\<open>init\<close> functions of the cbor and resp formats,
  with the properties their specification states of them.
\<close>

section \<open>The canonical Type enumeration (value.go, lines 11-61)\<close>

text \<open>
  \<^verbatim>\<open>type Type int\<close> with thirteen constants numbered by \<^verbatim>\<open>iota\<close>: \<^verbatim>\<open>Unknown\<close> is 0 and
  the twelve kinds follow. The constants \<^verbatim>\<open>Nil\<close> and \<^verbatim>\<open>Int\<close> carry a suffix here, their
  names being taken in HOL.
\<close>

type_synonym Type = int

definition Unknown :: Type where "Unknown = 0"
definition Nil_Type :: Type where "Nil_Type = 1"
definition Bool :: Type where "Bool = 2"
definition Int_Type :: Type where "Int_Type = 3"
definition Uint :: Type where "Uint = 4"
definition Float :: Type where "Float = 5"
definition String :: Type where "String = 6"
definition Bytes :: Type where "Bytes = 7"
definition Time :: Type where "Time = 8"
definition Duration :: Type where "Duration = 9"
definition Error :: Type where "Error = 10"
definition Array :: Type where "Array = 11"
definition Map :: Type where "Map = 12"

text \<open>The constants of the \<^verbatim>\<open>const\<close> block, in the order of their declaration.\<close>

definition Type_constants :: "Type list" where
  "Type_constants =
    [Unknown, Nil_Type, Bool, Int_Type, Uint, Float, String, Bytes, Time, Duration, Error,
     Array, Map]"

text \<open>The method \<^verbatim>\<open>func (t Type) String() string\<close>: a switch with a default branch.\<close>

definition Type_String :: "Type \<Rightarrow> string" where
  "Type_String t =
    (if t = Nil_Type then ''nil''
     else if t = Bool then ''bool''
     else if t = Int_Type then ''int''
     else if t = Uint then ''uint''
     else if t = Float then ''float''
     else if t = String then ''string''
     else if t = Bytes then ''bytes''
     else if t = Time then ''time''
     else if t = Duration then ''duration''
     else if t = Error then ''error''
     else if t = Array then ''array''
     else if t = Map then ''map''
     else ''<type>'')"

section \<open>The part of package reflect that value.go calls\<close>

text \<open>
  \<^verbatim>\<open>reflect.Kind\<close>, all twenty-seven kinds in the order of the Go declaration.
\<close>

datatype reflect_Kind =
    reflect_Invalid
  | reflect_Bool
  | reflect_Int | reflect_Int8 | reflect_Int16 | reflect_Int32 | reflect_Int64
  | reflect_Uint | reflect_Uint8 | reflect_Uint16 | reflect_Uint32 | reflect_Uint64
  | reflect_Uintptr
  | reflect_Float32 | reflect_Float64
  | reflect_Complex64 | reflect_Complex128
  | reflect_Array | reflect_Chan | reflect_Func | reflect_Interface | reflect_Map
  | reflect_Ptr | reflect_Slice | reflect_String | reflect_Struct
  | reflect_UnsafePointer

text \<open>
  \<^verbatim>\<open>reflect.Type\<close>. A struct type has a name and its fields; the other composite types
  have their element types. (A type that mentions itself through a pointer has no
  finite term here; such types are outside this development.)
\<close>

datatype reflect_Type =
    TBool
  | TInt | TInt8 | TInt16 | TInt32 | TInt64
  | TUint | TUint8 | TUint16 | TUint32 | TUint64 | TUintptr
  | TFloat32 | TFloat64
  | TComplex64 | TComplex128
  | TArray nat reflect_Type
  | TChan reflect_Type
  | TFunc "reflect_Type list" "reflect_Type list"
  | TInterface "string list"
  | TMap reflect_Type reflect_Type
  | TPtr reflect_Type
  | TSlice reflect_Type
  | TString
  | TStruct string "(string \<times> reflect_Type) list"
  | TUnsafePointer

text \<open>\<^verbatim>\<open>Type.Kind\<close>: the kind of a type.\<close>

fun Type_Kind :: "reflect_Type \<Rightarrow> reflect_Kind" where
  "Type_Kind TBool = reflect_Bool"
| "Type_Kind TInt = reflect_Int"
| "Type_Kind TInt8 = reflect_Int8"
| "Type_Kind TInt16 = reflect_Int16"
| "Type_Kind TInt32 = reflect_Int32"
| "Type_Kind TInt64 = reflect_Int64"
| "Type_Kind TUint = reflect_Uint"
| "Type_Kind TUint8 = reflect_Uint8"
| "Type_Kind TUint16 = reflect_Uint16"
| "Type_Kind TUint32 = reflect_Uint32"
| "Type_Kind TUint64 = reflect_Uint64"
| "Type_Kind TUintptr = reflect_Uintptr"
| "Type_Kind TFloat32 = reflect_Float32"
| "Type_Kind TFloat64 = reflect_Float64"
| "Type_Kind TComplex64 = reflect_Complex64"
| "Type_Kind TComplex128 = reflect_Complex128"
| "Type_Kind (TArray n t) = reflect_Array"
| "Type_Kind (TChan t) = reflect_Chan"
| "Type_Kind (TFunc ins outs) = reflect_Func"
| "Type_Kind (TInterface ms) = reflect_Interface"
| "Type_Kind (TMap k t) = reflect_Map"
| "Type_Kind (TPtr t) = reflect_Ptr"
| "Type_Kind (TSlice t) = reflect_Slice"
| "Type_Kind TString = reflect_String"
| "Type_Kind (TStruct n fs) = reflect_Struct"
| "Type_Kind TUnsafePointer = reflect_UnsafePointer"

text \<open>
  A floating point number is finite (sign, significand, binary exponent: the number
  \<open>\<plusminus> m * 2 ^ e\<close>, so both zeros are \<open>m = 0\<close>), an infinity or not a number. Widening
  a \<^verbatim>\<open>float32\<close> to \<^verbatim>\<open>float64\<close>, which \<^verbatim>\<open>Value.Float\<close> does, is exact, so one type
  serves both widths.
\<close>

datatype float64 = Finite bool nat int | Infinity bool | NaN

text \<open>The comparison \<^verbatim>\<open>f == 0\<close> of Go: true at both zeros, false at NaN.\<close>

fun float_eq_zero :: "float64 \<Rightarrow> bool" where
  "float_eq_zero (Finite s m e) = (m = 0)"
| "float_eq_zero (Infinity s) = False"
| "float_eq_zero NaN = False"

type_synonym uintptr = "64 word"

text \<open>
  \<^verbatim>\<open>reflect.Value\<close>: the zero Value (\<open>VInvalid\<close>, what \<^verbatim>\<open>reflect.ValueOf(nil)\<close> returns),
  or a value of one of the kinds. \<^verbatim>\<open>int\<close>, \<^verbatim>\<open>uint\<close> and \<^verbatim>\<open>uintptr\<close> are 64 bits wide.
  A channel, map, pointer or slice is nil (\<open>None\<close>) or an address with what it holds;
  a pointer carries its element type too, which \<^verbatim>\<open>FieldByIndex\<close> asks for even of a nil
  pointer; a function is nil or a code address; an interface is nil or holds a value; a struct
  carries its type and the values of its fields in declaration order.
\<close>

datatype reflect_Value =
    VInvalid
  | VBool bool
  | VInt "64 word" | VInt8 "8 word" | VInt16 "16 word" | VInt32 "32 word" | VInt64 "64 word"
  | VUint "64 word" | VUint8 "8 word" | VUint16 "16 word" | VUint32 "32 word"
  | VUint64 "64 word" | VUintptr uintptr
  | VFloat32 float64 | VFloat64 float64
  | VComplex64 float64 float64 | VComplex128 float64 float64
  | VArray "reflect_Value list"
  | VChan "(uintptr \<times> reflect_Value list) option"
  | VFunc "uintptr option"
  | VInterface "reflect_Value option"
  | VMap "(uintptr \<times> (reflect_Value \<times> reflect_Value) list) option"
  | VPtr reflect_Type "(uintptr \<times> reflect_Value) option"
  | VSlice "(uintptr \<times> reflect_Value list) option"
  | VString string
  | VStruct reflect_Type "reflect_Value list"
  | VUnsafePointer uintptr

text \<open>
  The methods of \<^verbatim>\<open>reflect.Value\<close> panic when the kind of the receiver is not one they
  accept; a panic is a value of the model. The methods \<^verbatim>\<open>Bool\<close>, \<^verbatim>\<open>Int\<close>, \<^verbatim>\<open>Uint\<close>,
  \<^verbatim>\<open>Float\<close> and \<^verbatim>\<open>Type\<close> carry the suffix \<open>_of\<close> here: their names are those of
  constants of \<^verbatim>\<open>Type\<close>.
\<close>

datatype panic =
    ValueError          \<comment> \<open>a method called on a Value of the wrong kind\<close>
  | IndexOutOfRange     \<comment> \<open>\<^verbatim>\<open>Index\<close> or \<^verbatim>\<open>Field\<close> beyond the length\<close>
  | NilIndirection      \<comment> \<open>\<^verbatim>\<open>FieldByIndex\<close> through a nil pointer to an embedded struct\<close>

fun IsValid :: "reflect_Value \<Rightarrow> bool" where
  "IsValid VInvalid = False"
| "IsValid _ = True"

fun Kind :: "reflect_Value \<Rightarrow> reflect_Kind" where
  "Kind VInvalid = reflect_Invalid"
| "Kind (VBool _) = reflect_Bool"
| "Kind (VInt _) = reflect_Int"
| "Kind (VInt8 _) = reflect_Int8"
| "Kind (VInt16 _) = reflect_Int16"
| "Kind (VInt32 _) = reflect_Int32"
| "Kind (VInt64 _) = reflect_Int64"
| "Kind (VUint _) = reflect_Uint"
| "Kind (VUint8 _) = reflect_Uint8"
| "Kind (VUint16 _) = reflect_Uint16"
| "Kind (VUint32 _) = reflect_Uint32"
| "Kind (VUint64 _) = reflect_Uint64"
| "Kind (VUintptr _) = reflect_Uintptr"
| "Kind (VFloat32 _) = reflect_Float32"
| "Kind (VFloat64 _) = reflect_Float64"
| "Kind (VComplex64 _ _) = reflect_Complex64"
| "Kind (VComplex128 _ _) = reflect_Complex128"
| "Kind (VArray _) = reflect_Array"
| "Kind (VChan _) = reflect_Chan"
| "Kind (VFunc _) = reflect_Func"
| "Kind (VInterface _) = reflect_Interface"
| "Kind (VMap _) = reflect_Map"
| "Kind (VPtr _ _) = reflect_Ptr"
| "Kind (VSlice _) = reflect_Slice"
| "Kind (VString _) = reflect_String"
| "Kind (VStruct _ _) = reflect_Struct"
| "Kind (VUnsafePointer _) = reflect_UnsafePointer"

text \<open>\<^verbatim>\<open>Len\<close>: of an array, channel, map, slice or string; the length of a nil one is 0.\<close>

fun Len :: "reflect_Value \<Rightarrow> panic + nat" where
  "Len (VArray xs) = Inr (length xs)"
| "Len (VChan None) = Inr 0"
| "Len (VChan (Some (a, q))) = Inr (length q)"
| "Len (VMap None) = Inr 0"
| "Len (VMap (Some (a, kvs))) = Inr (length kvs)"
| "Len (VSlice None) = Inr 0"
| "Len (VSlice (Some (a, xs))) = Inr (length xs)"
| "Len (VString s) = Inr (length s)"
| "Len _ = Inl ValueError"

fun Bool_of :: "reflect_Value \<Rightarrow> panic + bool" where
  "Bool_of (VBool b) = Inr b"
| "Bool_of _ = Inl ValueError"

text \<open>\<^verbatim>\<open>Int\<close> returns an \<^verbatim>\<open>int64\<close>, \<^verbatim>\<open>Uint\<close> a \<^verbatim>\<open>uint64\<close>: here the number it stands for.\<close>

fun Int_of :: "reflect_Value \<Rightarrow> panic + int" where
  "Int_of (VInt w) = Inr (sint w)"
| "Int_of (VInt8 w) = Inr (sint w)"
| "Int_of (VInt16 w) = Inr (sint w)"
| "Int_of (VInt32 w) = Inr (sint w)"
| "Int_of (VInt64 w) = Inr (sint w)"
| "Int_of _ = Inl ValueError"

fun Uint_of :: "reflect_Value \<Rightarrow> panic + int" where
  "Uint_of (VUint w) = Inr (uint w)"
| "Uint_of (VUint8 w) = Inr (uint w)"
| "Uint_of (VUint16 w) = Inr (uint w)"
| "Uint_of (VUint32 w) = Inr (uint w)"
| "Uint_of (VUint64 w) = Inr (uint w)"
| "Uint_of (VUintptr w) = Inr (uint w)"
| "Uint_of _ = Inl ValueError"

fun Float_of :: "reflect_Value \<Rightarrow> panic + float64" where
  "Float_of (VFloat32 f) = Inr f"
| "Float_of (VFloat64 f) = Inr f"
| "Float_of _ = Inl ValueError"

text \<open>\<^verbatim>\<open>IsNil\<close>: of a channel, function, interface, map, pointer, slice or unsafe pointer.\<close>

fun IsNil :: "reflect_Value \<Rightarrow> panic + bool" where
  "IsNil (VChan c) = Inr (c = None)"
| "IsNil (VFunc f) = Inr (f = None)"
| "IsNil (VInterface i) = Inr (i = None)"
| "IsNil (VMap m) = Inr (m = None)"
| "IsNil (VPtr t p) = Inr (p = None)"
| "IsNil (VSlice s) = Inr (s = None)"
| "IsNil (VUnsafePointer a) = Inr (a = 0)"
| "IsNil _ = Inl ValueError"

text \<open>\<^verbatim>\<open>Pointer\<close>: the address as a \<^verbatim>\<open>uintptr\<close>, 0 for nil.\<close>

fun Pointer :: "reflect_Value \<Rightarrow> panic + uintptr" where
  "Pointer (VChan None) = Inr 0"
| "Pointer (VChan (Some (a, q))) = Inr a"
| "Pointer (VFunc None) = Inr 0"
| "Pointer (VFunc (Some a)) = Inr a"
| "Pointer (VMap None) = Inr 0"
| "Pointer (VMap (Some (a, kvs))) = Inr a"
| "Pointer (VPtr t None) = Inr 0"
| "Pointer (VPtr t (Some (a, x))) = Inr a"
| "Pointer (VSlice None) = Inr 0"
| "Pointer (VSlice (Some (a, xs))) = Inr a"
| "Pointer (VUnsafePointer a) = Inr a"
| "Pointer _ = Inl ValueError"

text \<open>\<^verbatim>\<open>Index\<close>: the i-th element of an array, slice or string.\<close>

fun Index :: "reflect_Value \<Rightarrow> nat \<Rightarrow> panic + reflect_Value" where
  "Index (VArray xs) i = (if i < length xs then Inr (xs ! i) else Inl IndexOutOfRange)"
| "Index (VSlice None) i = Inl IndexOutOfRange"
| "Index (VSlice (Some (a, xs))) i =
    (if i < length xs then Inr (xs ! i) else Inl IndexOutOfRange)"
| "Index (VString s) i =
    (if i < length s then Inr (VUint8 (of_char (s ! i))) else Inl IndexOutOfRange)"
| "Index _ i = Inl ValueError"

text \<open>\<^verbatim>\<open>Field\<close>: the i-th field of a struct.\<close>

fun Field :: "reflect_Value \<Rightarrow> int \<Rightarrow> panic + reflect_Value" where
  "Field (VStruct t fs) i =
    (if 0 \<le> i \<and> i < int (length fs) then Inr (fs ! nat i) else Inl IndexOutOfRange)"
| "Field _ i = Inl ValueError"

text \<open>
  \<^verbatim>\<open>FieldByIndex\<close>, as package reflect writes it:
  \<^verbatim>\<open>
  if len(index) == 1 { return v.Field(index[0]) }
  v.mustBe(Struct)
  for i, x := range index {
      if i > 0 {
          if v.Kind() == Pointer && v.typ().Elem().Kind() == Struct {
              if v.IsNil() { panic("reflect: indirection through nil pointer to embedded struct") }
              v = v.Elem()
          }
      }
      v = v.Field(x)
  }
  return v
  \<close>
  \<open>through_embedded\<close> is the body of \<^verbatim>\<open>if i > 0\<close>: a pointer whose element type is a
  struct is followed (\<^verbatim>\<open>Elem\<close>), with a panic when it is nil; any other value, a pointer
  to something else included, is left as it is, and \<^verbatim>\<open>Field\<close> panics on it next.
  On the empty index the result is the struct itself.
\<close>

fun through_embedded :: "reflect_Value \<Rightarrow> panic + reflect_Value" where
  "through_embedded (VPtr t p) =
    (if Type_Kind t = reflect_Struct then
       (case p of None \<Rightarrow> Inl NilIndirection | Some (a, w) \<Rightarrow> Inr w)
     else Inr (VPtr t p))"
| "through_embedded v = Inr v"

fun FieldByIndex_rest :: "reflect_Value \<Rightarrow> int list \<Rightarrow> panic + reflect_Value" where
  "FieldByIndex_rest v [] = Inr v"
| "FieldByIndex_rest v (x # xs) =
    (case through_embedded v of
       Inl e \<Rightarrow> Inl e
     | Inr v' \<Rightarrow> (case Field v' x of Inl e \<Rightarrow> Inl e | Inr w \<Rightarrow> FieldByIndex_rest w xs))"

definition FieldByIndex :: "reflect_Value \<Rightarrow> int list \<Rightarrow> panic + reflect_Value" where
  "FieldByIndex v idx =
    (if length idx = 1 then Field v (hd idx)
     else if Kind v \<noteq> reflect_Struct then Inl ValueError
     else (case idx of
             [] \<Rightarrow> Inr v
           | x # xs \<Rightarrow> (case Field v x of Inl e \<Rightarrow> Inl e | Inr w \<Rightarrow> FieldByIndex_rest w xs)))"

text \<open>
  \<^verbatim>\<open>Type\<close>: the model records the type of struct values, where value.go asks for it.
\<close>

fun Type_of :: "reflect_Value \<Rightarrow> panic + reflect_Type" where
  "Type_of (VStruct t fs) = Inr t"
| "Type_of _ = Inl ValueError"

text \<open>
  \<^verbatim>\<open>reflect.ValueOf\<close>: an \<^verbatim>\<open>interface{}\<close> argument is nil or holds a value; the Value of
  nil is the zero Value.
\<close>

fun ValueOf :: "reflect_Value option \<Rightarrow> reflect_Value" where
  "ValueOf None = VInvalid"
| "ValueOf (Some v) = v"

text \<open>\<^verbatim>\<open>reflect.Zero\<close>: the zero value of a type.\<close>

fun Zero :: "reflect_Type \<Rightarrow> reflect_Value" where
  "Zero TBool = VBool False"
| "Zero TInt = VInt 0"
| "Zero TInt8 = VInt8 0"
| "Zero TInt16 = VInt16 0"
| "Zero TInt32 = VInt32 0"
| "Zero TInt64 = VInt64 0"
| "Zero TUint = VUint 0"
| "Zero TUint8 = VUint8 0"
| "Zero TUint16 = VUint16 0"
| "Zero TUint32 = VUint32 0"
| "Zero TUint64 = VUint64 0"
| "Zero TUintptr = VUintptr 0"
| "Zero TFloat32 = VFloat32 (Finite False 0 0)"
| "Zero TFloat64 = VFloat64 (Finite False 0 0)"
| "Zero TComplex64 = VComplex64 (Finite False 0 0) (Finite False 0 0)"
| "Zero TComplex128 = VComplex128 (Finite False 0 0) (Finite False 0 0)"
| "Zero (TArray n t) = VArray (replicate n (Zero t))"
| "Zero (TChan t) = VChan None"
| "Zero (TFunc ins outs) = VFunc None"
| "Zero (TInterface ms) = VInterface None"
| "Zero (TMap k t) = VMap None"
| "Zero (TPtr t) = VPtr t None"
| "Zero (TSlice t) = VSlice None"
| "Zero TString = VString []"
| "Zero (TStruct n fs) = VStruct (TStruct n fs) (map (\<lambda>f. Zero (snd f)) fs)"
| "Zero TUnsafePointer = VUnsafePointer 0"

section \<open>Emptiness (value.go, lines 63-92)\<close>

text \<open>
  \<^verbatim>\<open>isEmptyValue\<close>: the switch on the kind, case by case in the order of the source,
  with \<^verbatim>\<open>return false\<close> after it.
\<close>

definition isEmptyValue :: "reflect_Value \<Rightarrow> panic + bool" where
  "isEmptyValue v =
    (if \<not> IsValid v then Inr True
     else if Kind v \<in> {reflect_Array, reflect_Map, reflect_Slice, reflect_String} then
       (case Len v of Inl e \<Rightarrow> Inl e | Inr n \<Rightarrow> Inr (n = 0))
     else if Kind v = reflect_Bool then
       (case Bool_of v of Inl e \<Rightarrow> Inl e | Inr b \<Rightarrow> Inr (\<not> b))
     else if Kind v \<in> {reflect_Int, reflect_Int8, reflect_Int16, reflect_Int32, reflect_Int64} then
       (case Int_of v of Inl e \<Rightarrow> Inl e | Inr i \<Rightarrow> Inr (i = 0))
     else if Kind v \<in> {reflect_Uint, reflect_Uint8, reflect_Uint16, reflect_Uint32,
                        reflect_Uint64, reflect_Uintptr} then
       (case Uint_of v of Inl e \<Rightarrow> Inl e | Inr u \<Rightarrow> Inr (u = 0))
     else if Kind v \<in> {reflect_Float32, reflect_Float64} then
       (case Float_of v of Inl e \<Rightarrow> Inl e | Inr f \<Rightarrow> Inr (float_eq_zero f))
     else if Kind v \<in> {reflect_Interface, reflect_Ptr, reflect_Chan, reflect_Func} then
       IsNil v
     else if Kind v = reflect_UnsafePointer then
       (case Pointer v of Inl e \<Rightarrow> Inl e | Inr p \<Rightarrow> Inr (p = 0))
     else Inr False)"

definition IsEmptyValue :: "reflect_Value option \<Rightarrow> panic + bool" where
  "IsEmptyValue v = isEmptyValue (ValueOf v)"

section \<open>Zero values (value.go, lines 94-146)\<close>

text \<open>
  Modelled from the spec: the field descriptor \<^verbatim>\<open>structField\<close>, which value.go uses
  (\<^verbatim>\<open>f.index\<close>) and does not declare. It holds the exposed name of the field, its
  ownership path (the offsets that reach the field through nested and embedded records,
  what \<^verbatim>\<open>FieldByIndex\<close> walks) and its omit-if-empty flag.
\<close>

record structField =
  index :: "int list"
  name :: string
  omitempty :: bool

text \<open>
  Modelled from the spec: the struct descriptor \<^verbatim>\<open>structType\<close>, which value.go uses
  (\<^verbatim>\<open>s.fields\<close>) and does not declare: the ordered list of the field descriptors.
  The cache \<^verbatim>\<open>structCache\<close> is not in value.go either; its \<^verbatim>\<open>lookup\<close> gives the descriptor
  of a type and is a function of the type alone, so it is the parameter \<open>lookup\<close> of
  the functions below.
\<close>

datatype structType = structType (fields: "structField list")

text \<open>
  The outcome of a call: \<open>None\<close> when the recursion is deeper than the depth allowed,
  otherwise a panic or the boolean returned.
\<close>

type_synonym outcome = "(panic + bool) option"

text \<open>
  Both loops have the shape
  \<^verbatim>\<open>for ... { if !isZeroValue(x) { return false } } return true\<close>:
  they stop at the first element that panics, does not return, or is not zero.
\<close>

fun range_all :: "('a \<Rightarrow> outcome) \<Rightarrow> 'a list \<Rightarrow> outcome" where
  "range_all p [] = Some (Inr True)"
| "range_all p (x # xs) =
    (case p x of
       None \<Rightarrow> None
     | Some (Inl e) \<Rightarrow> Some (Inl e)
     | Some (Inr b) \<Rightarrow> (if \<not> b then Some (Inr False) else range_all p xs))"

text \<open>
  \<^verbatim>\<open>isZeroValue\<close>, \<^verbatim>\<open>isZeroArray\<close> and \<^verbatim>\<open>isZeroStruct\<close> call each other. The second argument
  bounds the depth of the calls of \<^verbatim>\<open>isZeroValue\<close> (a descriptor with an empty path
  would send \<^verbatim>\<open>isZeroStruct\<close> back to the same value for ever).
\<close>

fun isZeroValue :: "(reflect_Type \<Rightarrow> structType) \<Rightarrow> nat \<Rightarrow> reflect_Value \<Rightarrow> outcome"
  and isZeroArray :: "(reflect_Type \<Rightarrow> structType) \<Rightarrow> nat \<Rightarrow> reflect_Value \<Rightarrow> outcome"
  and isZeroStruct :: "(reflect_Type \<Rightarrow> structType) \<Rightarrow> nat \<Rightarrow> reflect_Value \<Rightarrow> outcome"
where
  "isZeroValue lookup 0 v = None"
| "isZeroValue lookup (Suc d) v =
    (if \<not> IsValid v then Some (Inr True)
     else if Kind v \<in> {reflect_Map, reflect_Slice, reflect_Ptr, reflect_Interface,
                        reflect_Chan, reflect_Func} then
       Some (IsNil v)
     else if Kind v = reflect_Bool then
       Some (case Bool_of v of Inl e \<Rightarrow> Inl e | Inr b \<Rightarrow> Inr (\<not> b))
     else if Kind v \<in> {reflect_Int, reflect_Int8, reflect_Int16, reflect_Int32, reflect_Int64} then
       Some (case Int_of v of Inl e \<Rightarrow> Inl e | Inr i \<Rightarrow> Inr (i = 0))
     else if Kind v \<in> {reflect_Uint, reflect_Uint8, reflect_Uint16, reflect_Uint32,
                        reflect_Uint64, reflect_Uintptr} then
       Some (case Uint_of v of Inl e \<Rightarrow> Inl e | Inr u \<Rightarrow> Inr (u = 0))
     else if Kind v \<in> {reflect_Float32, reflect_Float64} then
       Some (case Float_of v of Inl e \<Rightarrow> Inl e | Inr f \<Rightarrow> Inr (float_eq_zero f))
     else if Kind v = reflect_String then
       Some (case Len v of Inl e \<Rightarrow> Inl e | Inr n \<Rightarrow> Inr (n = 0))
     else if Kind v = reflect_UnsafePointer then
       Some (case Pointer v of Inl e \<Rightarrow> Inl e | Inr p \<Rightarrow> Inr (p = 0))
     else if Kind v = reflect_Array then isZeroArray lookup d v
     else if Kind v = reflect_Struct then isZeroStruct lookup d v
     else Some (Inr False))"
| "isZeroArray lookup d v =
    (case Len v of
       Inl e \<Rightarrow> Some (Inl e)
     | Inr n \<Rightarrow>
         range_all
           (\<lambda>i. case Index v i of Inl e \<Rightarrow> Some (Inl e) | Inr w \<Rightarrow> isZeroValue lookup d w)
           [0..<n])"
| "isZeroStruct lookup d v =
    (case Type_of v of
       Inl e \<Rightarrow> Some (Inl e)
     | Inr t \<Rightarrow>
         range_all
           (\<lambda>f. case FieldByIndex v (index f) of
                  Inl e \<Rightarrow> Some (Inl e)
                | Inr w \<Rightarrow> isZeroValue lookup d w)
           (fields (lookup t)))"

definition IsZeroValue ::
  "(reflect_Type \<Rightarrow> structType) \<Rightarrow> nat \<Rightarrow> reflect_Value option \<Rightarrow> outcome" where
  "IsZeroValue lookup d v = isZeroValue lookup d (ValueOf v)"

text \<open>
  \<^verbatim>\<open>isZeroValue\<close> returns \<open>b\<close> on \<open>v\<close>: at some depth the call ends with that boolean.
\<close>

definition returns :: "(reflect_Type \<Rightarrow> structType) \<Rightarrow> reflect_Value \<Rightarrow> bool \<Rightarrow> bool" where
  "returns lookup v b \<longleftrightarrow> (\<exists>d. isZeroValue lookup d v = Some (Inr b))"

text \<open>The kinds the two switches treat as nullable references and as scalars.\<close>

definition nullable_kinds :: "reflect_Kind set" where
  "nullable_kinds =
    {reflect_Map, reflect_Slice, reflect_Ptr, reflect_Interface, reflect_Chan, reflect_Func}"

definition scalar_kinds :: "reflect_Kind set" where
  "scalar_kinds =
    {reflect_Bool,
     reflect_Int, reflect_Int8, reflect_Int16, reflect_Int32, reflect_Int64,
     reflect_Uint, reflect_Uint8, reflect_Uint16, reflect_Uint32, reflect_Uint64,
     reflect_Uintptr,
     reflect_Float32, reflect_Float64,
     reflect_String}"



text \<open>
  An example for the statements below: a struct type with an exported field \<^verbatim>\<open>X\<close> and
  an unexported field \<^verbatim>\<open>note\<close>, and a descriptor cache that lists \<^verbatim>\<open>X\<close> alone.
\<close>

definition example_type :: reflect_Type where
  "example_type = TStruct ''Point'' [(''X'', TInt), (''note'', TString)]"

definition example_lookup :: "reflect_Type \<Rightarrow> structType" where
  "example_lookup t = structType [\<lparr>index = [0], name = ''X'', omitempty = False\<rparr>]"




section \<open>The zero-value cache (value.go, lines 148-168)\<close>

text \<open>
  \<^verbatim>\<open>zeroCache\<close> is a package variable, a \<^verbatim>\<open>map[reflect.Type]reflect.Value\<close> that starts
  empty; \<^verbatim>\<open>zeroValueOf\<close> takes the cache and returns it with the value. One thread runs
  here, so taking and releasing \<^verbatim>\<open>zeroMutex\<close> changes nothing.
\<close>

type_synonym zeroCache = "reflect_Type \<rightharpoonup> reflect_Value"

definition zeroValueOf :: "zeroCache \<Rightarrow> reflect_Type \<Rightarrow> reflect_Value \<times> zeroCache" where
  "zeroValueOf cache t =
    (case cache t of
       Some v \<Rightarrow> (v, cache)
     | None \<Rightarrow> (let v = Zero t in (v, cache(t \<mapsto> v))))"

text \<open>The caches a program can hold: the empty one, and what a call leaves behind.\<close>

inductive reachable :: "zeroCache \<Rightarrow> bool" where
  initial: "reachable Map.empty"
| call: "reachable cache \<Longrightarrow> reachable (snd (zeroValueOf cache t))"

section \<open>Bytes to string without a copy (value.go, lines 206-215)\<close>

text \<open>
  A byte slice and a string are headers (\<^verbatim>\<open>reflect.SliceHeader\<close>,
  \<^verbatim>\<open>reflect.StringHeader\<close>) over the same byte-addressed memory; what a header holds is
  the bytes from its data address on.
\<close>

type_synonym memory = "uintptr \<Rightarrow> 8 word"

datatype SliceHeader = SliceHeader (Slice_Data: uintptr) (Slice_Len: nat) (Slice_Cap: nat)

datatype StringHeader = StringHeader (String_Data: uintptr) (String_Len: nat)

definition slice_bytes :: "memory \<Rightarrow> SliceHeader \<Rightarrow> 8 word list" where
  "slice_bytes mem b = map (\<lambda>i. mem (Slice_Data b + of_nat i)) [0..<Slice_Len b]"

definition string_bytes :: "memory \<Rightarrow> StringHeader \<Rightarrow> 8 word list" where
  "string_bytes mem s = map (\<lambda>i. mem (String_Data s + of_nat i)) [0..<String_Len s]"

text \<open>\<^verbatim>\<open>&b[i]\<close>: the address of an element, a panic when \<open>i\<close> is not below the length.\<close>

definition elem_addr :: "SliceHeader \<Rightarrow> nat \<Rightarrow> panic + uintptr" where
  "elem_addr b i =
    (if i < Slice_Len b then Inr (Slice_Data b + of_nat i) else Inl IndexOutOfRange)"

text \<open>The string literal \<^verbatim>\<open>""\<close>.\<close>

definition empty_string :: StringHeader where
  "empty_string = StringHeader 0 0"

definition stringNoCopy :: "SliceHeader \<Rightarrow> panic + StringHeader" where
  "stringNoCopy b =
    (let n = Slice_Len b in
     if n = 0 then Inr empty_string
     else (case elem_addr b 0 of
             Inl e \<Rightarrow> Inl e
           | Inr p \<Rightarrow> Inr (StringHeader p n)))"

section \<open>Registration of the formats (package cbor and package resp)\<close>

text \<open>
  A codec is a pair of constructors. The two \<^verbatim>\<open>init\<close> functions build theirs from the
  \<^verbatim>\<open>NewEmitter\<close> and \<^verbatim>\<open>NewParser\<close> of their own package, named here by package.
  (Package cbor writes \<^verbatim>\<open>objconv.Codec\<close> and \<^verbatim>\<open>objconv.Register\<close>, package resp
  \<^verbatim>\<open>mimetype.Codec\<close> and \<^verbatim>\<open>mimetype.Register\<close>; one type and one function stand for
  both.)
\<close>

datatype emitter_constructor = cbor_NewEmitter | resp_NewEmitter

datatype parser_constructor = cbor_NewParser | resp_NewParser

datatype Codec = Codec (NewEmitter: emitter_constructor) (NewParser: parser_constructor)

text \<open>
  Modelled from the spec: the codec registry, which the \<^verbatim>\<open>init\<close> functions call and the
  sources at hand do not define: \<^verbatim>\<open>register(name, {makeSink, makeSource})\<close>; names are
  case-insensitive content-type-like strings; a format may register under several
  aliases; the lookup of an unregistered name fails with a "codec not found" error.
  A registry maps the names, in lower case, to their codecs.
\<close>

type_synonym registry = "string \<rightharpoonup> Codec"

datatype registry_error = CodecNotFound

text \<open>
  Modelled from the spec: names are case-insensitive. The registry's own comparison of
  names is missing; here a name is compared after its ASCII letters are put in lower
  case.
\<close>

definition lower_char :: "char \<Rightarrow> char" where
  "lower_char c =
    (case map_of (zip ''ABCDEFGHIJKLMNOPQRSTUVWXYZ'' ''abcdefghijklmnopqrstuvwxyz'') c of
       None \<Rightarrow> c
     | Some l \<Rightarrow> l)"

definition lower_name :: "string \<Rightarrow> string" where
  "lower_name s = map lower_char s"

text \<open>
  Modelled from the spec: \<^verbatim>\<open>Register\<close>, missing from the sources:
  \<^verbatim>\<open>register(name, {makeSink, makeSource})\<close> enters the codec under the name.
\<close>

definition Register :: "string \<Rightarrow> Codec \<Rightarrow> registry \<Rightarrow> registry" where
  "Register nm codec reg = reg(lower_name nm \<mapsto> codec)"

text \<open>
  Modelled from the spec: the lookup by name, missing from the sources: the codec
  registered under the name, and a "codec not found" error for a name that is not
  registered.
\<close>

definition Lookup :: "string \<Rightarrow> registry \<Rightarrow> registry_error + Codec" where
  "Lookup nm reg = (case reg (lower_name nm) of None \<Rightarrow> Inl CodecNotFound | Some c \<Rightarrow> Inr c)"

text \<open>
  \<^verbatim>\<open>func init()\<close> of package cbor and of package resp: one codec value, registered under
  each name of the array literal in turn.
\<close>

definition cbor_codec :: Codec where
  "cbor_codec = Codec cbor_NewEmitter cbor_NewParser"

definition cbor_init :: "registry \<Rightarrow> registry" where
  "cbor_init reg =
    foldl (\<lambda>r nm. Register nm cbor_codec r) reg [''application/cbor'', ''cbor'']"

definition resp_codec :: Codec where
  "resp_codec = Codec resp_NewEmitter resp_NewParser"

definition resp_init :: "registry \<Rightarrow> registry" where
  "resp_init reg =
    foldl (\<lambda>r nm. Register nm resp_codec r) reg
      [''application/resp'', ''text/resp'', ''resp'']"

section \<open>Lemmas on the accessors, the loops and the depth\<close>

lemmas Type_defs =
  Unknown_def Nil_Type_def Bool_def Int_Type_def Uint_def Float_def String_def
  Bytes_def Time_def Duration_def Error_def Array_def Map_def

lemma Len_cases [simp]:
  "Len (VChan c) = Inr (case c of None \<Rightarrow> 0 | Some (a, q) \<Rightarrow> length q)"
  "Len (VMap m) = Inr (case m of None \<Rightarrow> 0 | Some (a, kvs) \<Rightarrow> length kvs)"
  "Len (VSlice s) = Inr (case s of None \<Rightarrow> 0 | Some (a, xs) \<Rightarrow> length xs)"
  by (auto split: option.splits)

lemma Pointer_cases [simp]:
  "Pointer (VChan c) = Inr (case c of None \<Rightarrow> 0 | Some (a, q) \<Rightarrow> a)"
  "Pointer (VFunc f) = Inr (case f of None \<Rightarrow> 0 | Some a \<Rightarrow> a)"
  "Pointer (VMap m) = Inr (case m of None \<Rightarrow> 0 | Some (a, kvs) \<Rightarrow> a)"
  "Pointer (VPtr t p) = Inr (case p of None \<Rightarrow> 0 | Some (a, x) \<Rightarrow> a)"
  "Pointer (VSlice s) = Inr (case s of None \<Rightarrow> 0 | Some (a, xs) \<Rightarrow> a)"
  by (auto split: option.splits)



lemma range_all_True_iff:
  "range_all p xs = Some (Inr True) \<longleftrightarrow> (\<forall>x\<in>set xs. p x = Some (Inr True))"
  by (induction xs) (auto split: option.splits sum.splits)

lemma range_all_cong:
  "(\<And>x. x \<in> set xs \<Longrightarrow> p x = q x) \<Longrightarrow> range_all p xs = range_all q xs"
  by (induction xs) (auto split: option.splits sum.splits)

lemma range_all_mono:
  "range_all p xs = Some r \<Longrightarrow> (\<And>x r. x \<in> set xs \<Longrightarrow> p x = Some r \<Longrightarrow> q x = Some r) \<Longrightarrow>
    range_all q xs = Some r"
  by (induction xs) (auto split: option.splits sum.splits if_splits)


lemma isZeroValue_Array:
  "Kind v = reflect_Array \<Longrightarrow> isZeroValue lookup (Suc d) v = isZeroArray lookup d v"
  by (cases v) (simp_all del: isZeroArray.simps)

lemma isZeroValue_Struct:
  "Kind v = reflect_Struct \<Longrightarrow> isZeroValue lookup (Suc d) v = isZeroStruct lookup d v"
  by (cases v) (simp_all del: isZeroStruct.simps)

lemma isZeroValue_flat_depth:
  "Kind v \<noteq> reflect_Array \<Longrightarrow> Kind v \<noteq> reflect_Struct \<Longrightarrow>
    isZeroValue lookup (Suc d) v = isZeroValue lookup (Suc e) v"
  by simp

lemma isZeroValue_deeper:
  "isZeroValue lookup d v = Some r \<Longrightarrow> d \<le> d' \<Longrightarrow> isZeroValue lookup d' v = Some r"
proof (induction d arbitrary: v d' r)
  case 0
  then show ?case by simp
next
  case (Suc d)
  then obtain e where d': "d' = Suc e" and le: "d \<le> e"
    by (cases d') auto
  have sub: "isZeroValue lookup d w = Some s \<Longrightarrow> isZeroValue lookup e w = Some s" for w s
    using Suc.IH le by blast
  have arr: "isZeroArray lookup d v = Some r \<Longrightarrow> isZeroArray lookup e v = Some r"
    by (auto split: sum.splits elim!: range_all_mono intro: sub)
  have str: "isZeroStruct lookup d v = Some r \<Longrightarrow> isZeroStruct lookup e v = Some r"
    by (auto split: sum.splits elim!: range_all_mono intro: sub)
  consider "Kind v = reflect_Array" | "Kind v = reflect_Struct"
    | "Kind v \<noteq> reflect_Array" "Kind v \<noteq> reflect_Struct"
    by blast
  then show ?case
  proof cases
    case 1
    with Suc.prems(1) arr show ?thesis
      unfolding d' by (simp only: isZeroValue_Array)
  next
    case 2
    with Suc.prems(1) str show ?thesis
      unfolding d' by (simp only: isZeroValue_Struct)
  next
    case 3
    with Suc.prems(1) show ?thesis
      unfolding d' using isZeroValue_flat_depth [OF 3, of lookup d e] by simp
  qed
qed

lemma isZeroValue_common_depth:
  "(\<And>x. x \<in> set xs \<Longrightarrow> \<exists>d. isZeroValue lookup d (g x) = Some (r x)) \<Longrightarrow>
    \<exists>d. \<forall>x\<in>set xs. isZeroValue lookup d (g x) = Some (r x)"
proof (induction xs)
  case Nil
  then show ?case by simp
next
  case (Cons a xs)
  obtain d1 where a: "isZeroValue lookup d1 (g a) = Some (r a)"
    using Cons.prems [of a] by auto
  obtain d2 where xs: "\<forall>x\<in>set xs. isZeroValue lookup d2 (g x) = Some (r x)"
    using Cons by auto
  have "isZeroValue lookup (max d1 d2) (g x) = Some (r x)" if "x \<in> set (a # xs)" for x
  proof (cases "x = a")
    case True
    with isZeroValue_deeper [OF a, of "max d1 d2"] show ?thesis by auto
  next
    case False
    with that xs have "isZeroValue lookup d2 (g x) = Some (r x)" by auto
    from isZeroValue_deeper [OF this, of "max d1 d2"] show ?thesis by auto
  qed
  then show ?case by blast
qed

lemma returns_unique:
  assumes "returns lookup v b" and "returns lookup v b'"
  shows "b = b'"
proof -
  from assms obtain d d' where
    "isZeroValue lookup d v = Some (Inr b)" and "isZeroValue lookup d' v = Some (Inr b')"
    by (auto simp add: returns_def)
  then have "isZeroValue lookup (max d d') v = Some (Inr b)"
    and "isZeroValue lookup (max d d') v = Some (Inr b')"
    by (auto intro: isZeroValue_deeper)
  then show ?thesis by simp
qed

lemma returns_flat:
  assumes "Kind v \<noteq> reflect_Array" "Kind v \<noteq> reflect_Struct"
  shows "returns lookup v b \<longleftrightarrow> isZeroValue lookup (Suc 0) v = Some (Inr b)"
proof
  assume "returns lookup v b"
  then obtain d where d: "isZeroValue lookup d v = Some (Inr b)"
    by (auto simp add: returns_def)
  then obtain e where "d = Suc e"
    by (cases d) auto
  with d isZeroValue_flat_depth [OF assms, of lookup e 0]
  show "isZeroValue lookup (Suc 0) v = Some (Inr b)" by simp
next
  assume "isZeroValue lookup (Suc 0) v = Some (Inr b)"
  then show "returns lookup v b"
    unfolding returns_def by (rule exI)
qed

lemma returns_nullable:
  "Kind v \<in> nullable_kinds \<Longrightarrow> returns lookup v b \<longleftrightarrow> IsNil v = Inr b"
  by (cases v) (simp_all add: nullable_kinds_def returns_flat)

lemma returns_scalar:
  "Kind v \<in> scalar_kinds \<Longrightarrow> returns lookup v b \<longleftrightarrow> isEmptyValue v = Inr b"
  by (cases v) (simp_all add: scalar_kinds_def returns_flat isEmptyValue_def)

lemma isZeroArray_True_iff:
  "isZeroArray lookup d (VArray xs) = Some (Inr True) \<longleftrightarrow>
    (\<forall>x\<in>set xs. isZeroValue lookup d x = Some (Inr True))"
  by (auto simp add: range_all_True_iff all_set_conv_all_nth)

lemma field_outcome_True_iff:
  "(case s of Inl e \<Rightarrow> Some (Inl e) | Inr w \<Rightarrow> h w) = Some (Inr True) \<longleftrightarrow>
    (\<exists>w. s = Inr w \<and> h w = Some (Inr True))"
  by (cases s) auto

lemma isZeroStruct_True_iff:
  "isZeroStruct lookup d (VStruct t fs) = Some (Inr True) \<longleftrightarrow>
    (\<forall>f\<in>set (fields (lookup t)).
       \<exists>w. FieldByIndex (VStruct t fs) (index f) = Inr w \<and> isZeroValue lookup d w = Some (Inr True))"
  by (simp add: range_all_True_iff field_outcome_True_iff)

lemma returns_Array:
  "returns lookup (VArray xs) True \<longleftrightarrow> (\<forall>x\<in>set xs. returns lookup x True)"
proof
  assume "returns lookup (VArray xs) True"
  then obtain d where d: "isZeroValue lookup d (VArray xs) = Some (Inr True)"
    by (auto simp add: returns_def)
  then obtain e where e: "d = Suc e"
    by (cases d) auto
  from d have "isZeroArray lookup e (VArray xs) = Some (Inr True)"
    unfolding e by (simp only: isZeroValue_Array Kind.simps)
  then show "\<forall>x\<in>set xs. returns lookup x True"
    unfolding isZeroArray_True_iff returns_def by blast
next
  assume "\<forall>x\<in>set xs. returns lookup x True"
  then have "\<exists>d. isZeroValue lookup d (id x) = Some (Inr True)" if "x \<in> set xs" for x
    using that by (simp add: returns_def)
  from isZeroValue_common_depth [of xs lookup id "\<lambda>x. Inr True", OF this]
  obtain d where "\<forall>x\<in>set xs. isZeroValue lookup d x = Some (Inr True)"
    by auto
  then have "isZeroArray lookup d (VArray xs) = Some (Inr True)"
    by (simp only: isZeroArray_True_iff)
  then have "isZeroValue lookup (Suc d) (VArray xs) = Some (Inr True)"
    by (simp only: isZeroValue_Array Kind.simps)
  then show "returns lookup (VArray xs) True"
    unfolding returns_def by (rule exI)
qed

lemma returns_Struct:
  "returns lookup (VStruct t fs) True \<longleftrightarrow>
    (\<forall>f\<in>set (fields (lookup t)).
       \<exists>w. FieldByIndex (VStruct t fs) (index f) = Inr w \<and> returns lookup w True)"
proof
  assume "returns lookup (VStruct t fs) True"
  then obtain d where d: "isZeroValue lookup d (VStruct t fs) = Some (Inr True)"
    by (auto simp add: returns_def)
  then obtain e where e: "d = Suc e"
    by (cases d) auto
  from d have "isZeroStruct lookup e (VStruct t fs) = Some (Inr True)"
    unfolding e by (simp only: isZeroValue_Struct Kind.simps)
  then show "\<forall>f\<in>set (fields (lookup t)).
       \<exists>w. FieldByIndex (VStruct t fs) (index f) = Inr w \<and> returns lookup w True"
    unfolding isZeroStruct_True_iff returns_def by blast
next
  let ?g = "\<lambda>f. projr (FieldByIndex (VStruct t fs) (index f))"
  assume fit: "\<forall>f\<in>set (fields (lookup t)).
       \<exists>w. FieldByIndex (VStruct t fs) (index f) = Inr w \<and> returns lookup w True"
  then have "\<exists>d. isZeroValue lookup d (?g f) = Some (Inr True)"
    if "f \<in> set (fields (lookup t))" for f
    using that by (fastforce simp add: returns_def)
  from isZeroValue_common_depth [of "fields (lookup t)" lookup ?g "\<lambda>x. Inr True", OF this]
  obtain d where "\<forall>f\<in>set (fields (lookup t)). isZeroValue lookup d (?g f) = Some (Inr True)"
    by auto
  with fit have "isZeroStruct lookup d (VStruct t fs) = Some (Inr True)"
    unfolding isZeroStruct_True_iff by fastforce
  then have "isZeroValue lookup (Suc d) (VStruct t fs) = Some (Inr True)"
    by (simp only: isZeroValue_Struct Kind.simps)
  then show "returns lookup (VStruct t fs) True"
    unfolding returns_def by (rule exI)
qed

lemma isZeroValue_Struct_agree:
  assumes "\<forall>f\<in>set (fields (lookup t)).
      FieldByIndex (VStruct t fs') (index f) = FieldByIndex (VStruct t fs) (index f)"
  shows "isZeroValue lookup d (VStruct t fs') = isZeroValue lookup d (VStruct t fs)"
proof (cases d)
  case 0
  then show ?thesis by simp
next
  case (Suc e)
  have "isZeroStruct lookup e (VStruct t fs') = isZeroStruct lookup e (VStruct t fs)"
    using assms by (auto intro!: range_all_cong)
  then show ?thesis
    unfolding Suc by (simp only: isZeroValue_Struct Kind.simps)
qed

lemma Field_update:
  "j \<noteq> int i \<Longrightarrow> Field (VStruct t (fs[i := x])) j = Field (VStruct t fs) j"
  by auto

lemma FieldByIndex_update:
  "idx \<noteq> [] \<Longrightarrow> hd idx \<noteq> int i \<Longrightarrow>
    FieldByIndex (VStruct t (fs[i := x])) idx = FieldByIndex (VStruct t fs) idx"
  by (cases idx) (simp_all add: FieldByIndex_def Field_update del: Field.simps)


lemma reachable_Zero: "reachable cache \<Longrightarrow> cache t = Some v \<Longrightarrow> v = Zero t"
proof (induction arbitrary: t v rule: reachable.induct)
  case initial
  then show ?case by simp
next
  case (call cache u)
  then show ?case
    by (auto simp add: zeroValueOf_def Let_def split: option.splits if_splits)
qed


section \<open>The claims\<close>

text \<open>
  C5, as stated, fails: the \<^verbatim>\<open>const\<close> block declares a thirteenth constant of type
  \<^verbatim>\<open>Type\<close>, \<^verbatim>\<open>Unknown\<close>, which is none of the twelve kinds.
\<close>

theorem Type_has_Unknown:
  "Unknown \<in> set Type_constants
   \<and> Unknown \<notin> {Nil_Type, Bool, Int_Type, Uint, Float, String, Bytes, Time, Duration, Error,
                 Array, Map}"
  by (simp add: Type_constants_def Type_defs)

text \<open>
  C5, amended. \<^verbatim>\<open>Type\<close> has thirteen constants, numbered from 0 in the order of their
  declaration: \<^verbatim>\<open>Unknown\<close>, which is 0 and which \<^verbatim>\<open>String()\<close> does not name, then the
  twelve kinds \<^verbatim>\<open>Nil\<close>, \<^verbatim>\<open>Bool\<close>, \<^verbatim>\<open>Int\<close>, \<^verbatim>\<open>Uint\<close>, \<^verbatim>\<open>Float\<close>, \<^verbatim>\<open>String\<close>, \<^verbatim>\<open>Bytes\<close>,
  \<^verbatim>\<open>Time\<close>, \<^verbatim>\<open>Duration\<close>, \<^verbatim>\<open>Error\<close>, \<^verbatim>\<open>Array\<close>, \<^verbatim>\<open>Map\<close>, each below the next. The kinds
  are the values that \<^verbatim>\<open>String()\<close> names, each by its own name, and there are no
  others.
\<close>

theorem Type_thirteen_constants:
  "Type_constants = map int [0..<13]
   \<and> Type_constants =
       Unknown # [Nil_Type, Bool, Int_Type, Uint, Float, String, Bytes, Time, Duration, Error,
                  Array, Map]
   \<and> Unknown < Nil_Type
   \<and> Nil_Type < Bool \<and> Bool < Int_Type \<and> Int_Type < Uint \<and> Uint < Float \<and> Float < String
   \<and> String < Bytes \<and> Bytes < Time \<and> Time < Duration \<and> Duration < Error \<and> Error < Array
   \<and> Array < Map
   \<and> map Type_String Type_constants
       = [''<type>'', ''nil'', ''bool'', ''int'', ''uint'', ''float'', ''string'', ''bytes'',
          ''time'', ''duration'', ''error'', ''array'', ''map'']
   \<and> (Type_String t \<noteq> ''<type>'' \<longleftrightarrow>
         t \<in> {Nil_Type, Bool, Int_Type, Uint, Float, String, Bytes, Time, Duration, Error,
               Array, Map})"
  by (simp add: Type_constants_def Type_String_def Type_defs upt_rec)

text \<open>
  C2. \<^verbatim>\<open>isEmptyValue\<close> looks at the value itself and never at what it holds: an array,
  slice, map or string is empty exactly when its length is 0; a boolean when it is
  false; an integer of any width, signed or not, when it is 0; a float when it compares
  equal to 0; a pointer or interface when it is nil. A struct is never empty, and
  whether an array, slice or map is empty does not change when its elements are replaced
  by any others; a pointer or interface that holds something is not empty, whatever it
  holds.
\<close>

theorem isEmptyValue_shallow:
  "(Kind v \<in> {reflect_Array, reflect_Slice, reflect_Map, reflect_String} \<longrightarrow>
      (\<exists>n. Len v = Inr n \<and> isEmptyValue v = Inr (n = 0)))
   \<and> isEmptyValue (VBool b) = Inr (\<not> b)
   \<and> isEmptyValue (VInt w64) = Inr (w64 = 0)
   \<and> isEmptyValue (VInt8 w8) = Inr (w8 = 0)
   \<and> isEmptyValue (VInt16 w16) = Inr (w16 = 0)
   \<and> isEmptyValue (VInt32 w32) = Inr (w32 = 0)
   \<and> isEmptyValue (VInt64 w64) = Inr (w64 = 0)
   \<and> isEmptyValue (VUint w64) = Inr (w64 = 0)
   \<and> isEmptyValue (VUint8 w8) = Inr (w8 = 0)
   \<and> isEmptyValue (VUint16 w16) = Inr (w16 = 0)
   \<and> isEmptyValue (VUint32 w32) = Inr (w32 = 0)
   \<and> isEmptyValue (VUint64 w64) = Inr (w64 = 0)
   \<and> isEmptyValue (VUintptr w64) = Inr (w64 = 0)
   \<and> isEmptyValue (VFloat32 f) = Inr (float_eq_zero f)
   \<and> isEmptyValue (VFloat64 f) = Inr (float_eq_zero f)
   \<and> isEmptyValue (VPtr pt p) = Inr (p = None)
   \<and> isEmptyValue (VInterface i) = Inr (i = None)
   \<and> isEmptyValue (VStruct t fs) = Inr False
   \<and> isEmptyValue (VArray xs) = Inr (xs = [])
   \<and> isEmptyValue (VArray (map g xs)) = isEmptyValue (VArray xs)
   \<and> isEmptyValue (VSlice (Some (a, map g xs))) = isEmptyValue (VSlice (Some (a, xs)))
   \<and> isEmptyValue (VMap (Some (a, map h kvs))) = isEmptyValue (VMap (Some (a, kvs)))
   \<and> isEmptyValue (VPtr pt (Some (a, x))) = Inr False
   \<and> isEmptyValue (VInterface (Some x)) = Inr False
   \<and> IsEmptyValue (Some v) = isEmptyValue v"
  by (cases v)
    (simp_all add: IsEmptyValue_def isEmptyValue_def signed_eq_0_iff unsigned_eq_0_iff)

theorem isEmptyValue_shallow_witness:
  "isEmptyValue (VString []) = Inr True
   \<and> isEmptyValue (VString ''go'') = Inr False
   \<and> isEmptyValue (VSlice None) = Inr True
   \<and> isEmptyValue (VMap (Some (4096, [(VString ''k'', VInt 1)]))) = Inr False
   \<and> isEmptyValue (VArray [VInt 0, VInt 0]) = Inr False
   \<and> isEmptyValue (VStruct example_type [VInt 0, VString []]) = Inr False"
  using isEmptyValue_shallow [where v = "VString []"]
    isEmptyValue_shallow [where v = "VString ''go''"]
    isEmptyValue_shallow [where v = "VSlice None"]
    isEmptyValue_shallow [where v = "VMap (Some (4096, [(VString ''k'', VInt 1)]))"]
    isEmptyValue_shallow [where v = "VArray [VInt 0, VInt 0]"]
    isEmptyValue_shallow [where t = example_type and fs = "[VInt 0, VString []]"]
  by simp

text \<open>
  C4. On every scalar (a boolean, a signed or unsigned integer of any width, a
  \<^verbatim>\<open>uintptr\<close>, a float of either width, a string) \<^verbatim>\<open>IsZeroValue\<close> returns what
  \<^verbatim>\<open>IsEmptyValue\<close> returns.
\<close>

theorem scalar_zero_is_empty:
  "Kind v \<in> scalar_kinds \<Longrightarrow>
    IsZeroValue lookup (Suc d) (Some v) = Some (IsEmptyValue (Some v))"
  by (cases v) (simp_all add: scalar_kinds_def IsZeroValue_def IsEmptyValue_def isEmptyValue_def)

theorem scalar_zero_is_empty_witness:
  "IsZeroValue example_lookup (Suc 0) (Some (VFloat64 (Finite True 0 0))) = Some (Inr True)
   \<and> IsEmptyValue (Some (VFloat64 (Finite True 0 0))) = Inr True
   \<and> IsZeroValue example_lookup (Suc 0) (Some (VUint8 7)) = Some (Inr False)
   \<and> IsEmptyValue (Some (VUint8 7)) = Inr False"
  using scalar_zero_is_empty [of "VFloat64 (Finite True 0 0)" example_lookup 0]
    scalar_zero_is_empty [of "VUint8 7" example_lookup 0]
  by (simp add: scalar_kinds_def IsEmptyValue_def isEmptyValue_def)

text \<open>
  C3. Neither predicate implies the other: a slice or a map that is not nil and has
  length 0 is empty and not zero; an array of one or more zero integers is zero and not
  empty.
\<close>

theorem empty_and_zero_differ:
  "isEmptyValue (VSlice (Some (a, []))) = Inr True
   \<and> isZeroValue lookup (Suc d) (VSlice (Some (a, []))) = Some (Inr False)
   \<and> isEmptyValue (VMap (Some (a, []))) = Inr True
   \<and> isZeroValue lookup (Suc d) (VMap (Some (a, []))) = Some (Inr False)
   \<and> isEmptyValue (VArray (replicate (Suc n) (VInt 0))) = Inr False
   \<and> isZeroValue lookup (Suc (Suc d)) (VArray (replicate (Suc n) (VInt 0))) = Some (Inr True)"
  by (simp add: isEmptyValue_def range_all_True_iff del: replicate.simps upt_Suc)

text \<open>
  C1. \<^verbatim>\<open>IsZeroValue\<close> is \<^verbatim>\<open>isZeroValue\<close> on the value held. \<^verbatim>\<open>isZeroValue\<close> returns true on
  a map, slice, pointer, interface, channel or function exactly when it is nil; on a
  scalar it returns what \<^verbatim>\<open>isEmptyValue\<close> returns; on an array it returns true exactly
  when it returns true on every element; on a struct it returns true exactly when every
  path of the descriptor of its type leads to a field on which it returns true. What
  the descriptor does not list has no part in the result: two structs of one type that
  agree along every path of the descriptor get the same outcome, so a field that no
  path starts at can hold anything.
\<close>

theorem isZeroValue_matches_definition:
  "IsZeroValue lookup d (Some v) = isZeroValue lookup d v
   \<and> (Kind v \<in> nullable_kinds \<longrightarrow> (returns lookup v b \<longleftrightarrow> IsNil v = Inr b))
   \<and> (Kind v \<in> scalar_kinds \<longrightarrow> (returns lookup v b \<longleftrightarrow> isEmptyValue v = Inr b))
   \<and> (returns lookup (VArray xs) True \<longleftrightarrow> (\<forall>x\<in>set xs. returns lookup x True))
   \<and> (returns lookup (VStruct t fs) True \<longleftrightarrow>
        (\<forall>f\<in>set (fields (lookup t)).
           \<exists>w. FieldByIndex (VStruct t fs) (index f) = Inr w \<and> returns lookup w True))
   \<and> ((\<forall>f\<in>set (fields (lookup t)).
          FieldByIndex (VStruct t fs') (index f) = FieldByIndex (VStruct t fs) (index f)) \<longrightarrow>
        isZeroValue lookup d (VStruct t fs') = isZeroValue lookup d (VStruct t fs))
   \<and> ((\<forall>f\<in>set (fields (lookup t)). index f \<noteq> [] \<and> hd (index f) \<noteq> int i) \<longrightarrow>
        isZeroValue lookup d (VStruct t (fs[i := x])) = isZeroValue lookup d (VStruct t fs))"
proof (intro conjI)
  show "IsZeroValue lookup d (Some v) = isZeroValue lookup d v"
    by (simp add: IsZeroValue_def)
  show "Kind v \<in> nullable_kinds \<longrightarrow> (returns lookup v b \<longleftrightarrow> IsNil v = Inr b)"
    using returns_nullable [of v lookup b] by (rule impI)
  show "Kind v \<in> scalar_kinds \<longrightarrow> (returns lookup v b \<longleftrightarrow> isEmptyValue v = Inr b)"
    using returns_scalar [of v lookup b] by (rule impI)
  show "returns lookup (VArray xs) True \<longleftrightarrow> (\<forall>x\<in>set xs. returns lookup x True)"
    by (rule returns_Array)
  show "returns lookup (VStruct t fs) True \<longleftrightarrow>
      (\<forall>f\<in>set (fields (lookup t)).
         \<exists>w. FieldByIndex (VStruct t fs) (index f) = Inr w \<and> returns lookup w True)"
    by (rule returns_Struct)
  show "(\<forall>f\<in>set (fields (lookup t)).
        FieldByIndex (VStruct t fs') (index f) = FieldByIndex (VStruct t fs) (index f)) \<longrightarrow>
      isZeroValue lookup d (VStruct t fs') = isZeroValue lookup d (VStruct t fs)"
    using isZeroValue_Struct_agree [of lookup t fs' fs d] by (rule impI)
  show "(\<forall>f\<in>set (fields (lookup t)). index f \<noteq> [] \<and> hd (index f) \<noteq> int i) \<longrightarrow>
      isZeroValue lookup d (VStruct t (fs[i := x])) = isZeroValue lookup d (VStruct t fs)"
  proof
    assume "\<forall>f\<in>set (fields (lookup t)). index f \<noteq> [] \<and> hd (index f) \<noteq> int i"
    then have "\<forall>f\<in>set (fields (lookup t)).
        FieldByIndex (VStruct t (fs[i := x])) (index f) = FieldByIndex (VStruct t fs) (index f)"
      by (simp add: FieldByIndex_update)
    then show "isZeroValue lookup d (VStruct t (fs[i := x])) = isZeroValue lookup d (VStruct t fs)"
      by (rule isZeroValue_Struct_agree)
  qed
qed

theorem isZeroValue_matches_definition_witness:
  "returns example_lookup (VPtr TInt None) True
   \<and> returns example_lookup (VSlice (Some (4096, []))) False
   \<and> returns example_lookup (VString ''go'') False
   \<and> returns example_lookup (VArray [VInt 0, VBool False]) True
   \<and> returns example_lookup (VStruct example_type [VInt 0, VString ''x'']) True
   \<and> isZeroValue example_lookup (Suc (Suc 0)) (VStruct example_type [VInt 0, VString ''x''])
      = isZeroValue example_lookup (Suc (Suc 0)) (VStruct example_type [VInt 0, VString []])"
proof -
  note inst = isZeroValue_matches_definition
    [where lookup = example_lookup and xs = "[VInt 0, VBool False]" and t = example_type
       and fs = "[VInt 0, VString ''x'']" and fs' = "[VInt 0, VString []]"
       and d = "Suc (Suc 0)" and i = 1 and x = "VString []"]
  have d1: "returns example_lookup v b"
    if "isZeroValue example_lookup (Suc 0) v = Some (Inr b)" for v b
    using that unfolding returns_def by (rule exI)
  have "returns example_lookup (VPtr TInt None) True"
    using inst [where v = "VPtr TInt None" and b = True]
    by (simp add: nullable_kinds_def)
  moreover have "returns example_lookup (VSlice (Some (4096, []))) False"
    using inst [where v = "VSlice (Some (4096, []))" and b = False]
    by (simp add: nullable_kinds_def)
  moreover have "returns example_lookup (VString ''go'') False"
    using inst [where v = "VString ''go''" and b = False]
    by (simp add: scalar_kinds_def isEmptyValue_def)
  moreover have "returns example_lookup (VArray [VInt 0, VBool False]) True"
    using inst [where v = VInvalid and b = True]
    by (simp add: d1)
  moreover have "returns example_lookup (VStruct example_type [VInt 0, VString ''x'']) True"
    using inst [where v = VInvalid and b = True]
    by (simp add: d1 example_lookup_def FieldByIndex_def)
  moreover have
    "isZeroValue example_lookup (Suc (Suc 0)) (VStruct example_type [VInt 0, VString ''x''])
      = isZeroValue example_lookup (Suc (Suc 0)) (VStruct example_type [VInt 0, VString []])"
    using inst [where v = VInvalid and b = True]
    by (simp add: example_lookup_def)
  ultimately show ?thesis by simp
qed




text \<open>
  C6. In every cache that calls of \<^verbatim>\<open>zeroValueOf\<close> have built from the empty one,
  \<^verbatim>\<open>zeroValueOf t\<close> returns \<^verbatim>\<open>reflect.Zero(t)\<close>: on the call that finds no entry and
  stores one, and on the next call for the same type, which finds it.
\<close>

theorem zeroValueOf_returns_Zero:
  "reachable cache \<Longrightarrow>
    fst (zeroValueOf cache t) = Zero t
    \<and> fst (zeroValueOf (snd (zeroValueOf cache t)) t) = Zero t
    \<and> reachable (snd (zeroValueOf cache t))"
proof -
  assume r: "reachable cache"
  have one: "fst (zeroValueOf c t) = Zero t" if "reachable c" for c
    using reachable_Zero [OF that, of t]
    by (auto simp add: zeroValueOf_def Let_def split: option.splits)
  from r have r': "reachable (snd (zeroValueOf cache t))"
    by (rule reachable.call)
  from one [OF r] one [OF r'] r' show ?thesis by simp
qed

theorem zeroValueOf_returns_Zero_witness:
  "fst (zeroValueOf Map.empty (TArray 2 TInt)) = VArray [VInt 0, VInt 0]
   \<and> fst (zeroValueOf (snd (zeroValueOf Map.empty (TArray 2 TInt))) (TArray 2 TInt))
       = VArray [VInt 0, VInt 0]
   \<and> fst (zeroValueOf (snd (zeroValueOf Map.empty (TArray 2 TInt))) TString) = VString []"
  using zeroValueOf_returns_Zero [OF reachable.initial, of "TArray 2 TInt"]
    zeroValueOf_returns_Zero [OF reachable.call [OF reachable.initial], of "TArray 2 TInt" TString]
  by (simp add: numeral_2_eq_2)

text \<open>
  C8. Each \<^verbatim>\<open>init\<close> registers one codec value under all its names: after package cbor's,
  \<^verbatim>\<open>application/cbor\<close> and \<^verbatim>\<open>cbor\<close> both resolve to the cbor codec; after package resp's,
  \<^verbatim>\<open>application/resp\<close>, \<^verbatim>\<open>text/resp\<close> and \<^verbatim>\<open>resp\<close> all resolve to the resp codec;
  whatever the registry held before, and in either order when both have run.
\<close>

theorem init_registers_aliases:
  "Lookup ''application/cbor'' (cbor_init reg) = Inr cbor_codec
   \<and> Lookup ''cbor'' (cbor_init reg) = Inr cbor_codec
   \<and> Lookup ''application/resp'' (resp_init reg) = Inr resp_codec
   \<and> Lookup ''text/resp'' (resp_init reg) = Inr resp_codec
   \<and> Lookup ''resp'' (resp_init reg) = Inr resp_codec
   \<and> Lookup ''application/cbor'' (resp_init (cbor_init reg)) = Inr cbor_codec
   \<and> Lookup ''cbor'' (resp_init (cbor_init reg)) = Inr cbor_codec
   \<and> Lookup ''application/resp'' (cbor_init (resp_init reg)) = Inr resp_codec
   \<and> Lookup ''text/resp'' (cbor_init (resp_init reg)) = Inr resp_codec
   \<and> Lookup ''resp'' (cbor_init (resp_init reg)) = Inr resp_codec
   \<and> cbor_codec = Codec cbor_NewEmitter cbor_NewParser
   \<and> resp_codec = Codec resp_NewEmitter resp_NewParser"
  by (simp add: Lookup_def cbor_init_def resp_init_def Register_def lower_name_def lower_char_def
      cbor_codec_def resp_codec_def)

text \<open>
  C10. \<^verbatim>\<open>stringNoCopy\<close> never panics; the string it returns has the length of the byte
  slice and, in any memory, the same bytes. For a slice of length 0 (nil or not) it is
  the empty string, and no element address is taken.
\<close>

theorem stringNoCopy_same_bytes:
  "\<exists>s. stringNoCopy b = Inr s
      \<and> String_Len s = Slice_Len b
      \<and> string_bytes mem s = slice_bytes mem b
      \<and> (Slice_Len b = 0 \<longrightarrow> s = empty_string \<and> string_bytes mem s = [])"
  by (simp add: stringNoCopy_def elem_addr_def string_bytes_def slice_bytes_def empty_string_def
      Let_def)

theorem stringNoCopy_same_bytes_witness:
  "stringNoCopy (SliceHeader 0 0 0) = Inr empty_string
   \<and> stringNoCopy (SliceHeader 4096 0 8) = Inr empty_string
   \<and> (\<exists>s. stringNoCopy (SliceHeader 4096 2 8) = Inr s
         \<and> string_bytes (\<lambda>a. if a = 4096 then 103 else if a = 4097 then 111 else 0) s
             = [103, 111])"
  using stringNoCopy_same_bytes [of "SliceHeader 0 0 0" "\<lambda>a. 0"]
    stringNoCopy_same_bytes [of "SliceHeader 4096 0 8" "\<lambda>a. 0"]
    stringNoCopy_same_bytes [of "SliceHeader 4096 2 8"
      "\<lambda>a. if a = 4096 then 103 else if a = 4097 then 111 else 0"]
  by (auto simp add: slice_bytes_def numeral_2_eq_2)

end
